theory Spec2Isabelle
  imports Main
begin

section \<open>The users table and the transfer shapes of main.py\<close>

text \<open>
  The service keeps one table, \<open>users\<close>, in an SQLite file. The table is modelled as
  the list of its rows in rowid order; a request handler takes the table as it is when
  the request arrives and returns its result together with the table as the request
  leaves it in the file. A timestamp is a clock reading of the database server
  (\<open>func.now()\<close>), passed to the handlers that store one.

  Python's \<open>str\<close> is modelled as \<open>string\<close>: the handlers only compare strings for
  equality and look for the character \<open>@\<close>, which reads the same on code points
  and on bytes.
\<close>

type_synonym datetime = nat

text \<open>class User(Base), lines 31-40: the columns of a row.\<close>

record User =
  user_id :: int
  name :: string
  email :: string
  age :: int
  sex :: string
  created_at :: "datetime option"
  updated_at :: "datetime option"

text \<open>class UserCreate(BaseModel), lines 50-54.\<close>

record UserCreate =
  create_name :: string
  create_email :: string
  create_age :: int
  create_sex :: string

text \<open>class UserRead(BaseModel), lines 60-67.\<close>

record UserRead =
  read_id :: int
  read_name :: string
  read_email :: string
  read_age :: int
  read_sex :: string
  read_created_at :: "datetime option"
  read_updated_at :: "datetime option"

text \<open>class UserUpdate(BaseModel), lines 73-77: every field optional, None by default.\<close>

record UserUpdate =
  update_name :: "string option"
  update_email :: "string option"
  update_age :: "int option"
  update_sex :: "string option"

text \<open>
  What a handler can raise: an \<open>HTTPException\<close> with its status code and detail, the
  \<open>UnmappedInstanceError\<close> of \<open>Session.delete\<close> on an object that is no mapped
  instance, the \<open>InvalidRequestError\<close> of \<open>Session.refresh\<close> on a row that is
  gone, the \<open>OverflowError\<close> of the SQLite driver on an integer parameter that does not
  fit a signed 64-bit integer, and the \<open>OperationalError\<close> of an INSERT that finds no
  free key. The last four are no \<open>HTTPException\<close>: the framework answers them with an
  internal server error.
\<close>

datatype error =
    HTTPException nat string
  | UnmappedInstanceError
  | InvalidRequestError
  | OverflowError
  | OperationalError

text \<open>The failure classes of the specification, by status code (its section 6).\<close>

definition Conflict :: "error \<Rightarrow> bool" where
  "Conflict e = (case e of HTTPException status_code detail \<Rightarrow> status_code = 400 | _ \<Rightarrow> False)"

definition Validation :: "error \<Rightarrow> bool" where
  "Validation e = (case e of HTTPException status_code detail \<Rightarrow> status_code = 422 | _ \<Rightarrow> False)"

definition NotFound :: "error \<Rightarrow> bool" where
  "NotFound e = (case e of HTTPException status_code detail \<Rightarrow> status_code = 404 | _ \<Rightarrow> False)"

text \<open>\<open>UserRead.from_orm\<close>: the view of a row, field by field.\<close>

definition from_orm :: "User \<Rightarrow> UserRead" where
  "from_orm db_user =
     \<lparr>read_id = user_id db_user, read_name = name db_user, read_email = email db_user,
      read_age = age db_user, read_sex = sex db_user,
      read_created_at = created_at db_user, read_updated_at = updated_at db_user\<rparr>"

subsection \<open>The storage engine\<close>

text \<open>
  The constraints the table declares: \<open>id\<close> is the primary key (line 34) and \<open>email\<close> is
  unique (line 36).
\<close>

definition table_constraints :: "User list \<Rightarrow> bool" where
  "table_constraints db = (distinct (map user_id db) \<and> distinct (map email db))"

text \<open>
  An SQLite INTEGER is a signed 64-bit integer, a Python \<open>int\<close> is unbounded: the
  driver raises \<open>OverflowError\<close> when it is given an integer parameter outside the
  range, before the statement runs.
\<close>

definition sqlite_int :: "int \<Rightarrow> bool" where
  "sqlite_int k = (- (2 ^ 63) \<le> k \<and> k < 2 ^ 63)"

text \<open>What the file can hold: every key of the table is a signed 64-bit integer.\<close>

definition keys_fit :: "User list \<Rightarrow> bool" where
  "keys_fit db = (\<forall>r\<in>set db. sqlite_int (user_id r))"

text \<open>
  \<open>db.query(User).filter(User.id == user_id).first()\<close>, the lookup of lines 101, 119
  and 155: the first row with the key, None when there is none, and \<open>OverflowError\<close>
  for a key the driver cannot bind. A key that is stored fits, so a key outside the
  range is the key of no row: the model raises where the list has no row with the
  key, and so needs no assumption on the keys of the list that stands for the table.
  On a list whose keys fit this is the check of the parameter followed by the query
  (\<open>select_by_id_bind_first\<close> below).
\<close>

definition select_by_id :: "int \<Rightarrow> User list \<Rightarrow> error + User option" where
  "select_by_id uid db =
     (case find (\<lambda>r. user_id r = uid) db of
        Some r \<Rightarrow> Inr (Some r)
      | None \<Rightarrow> if sqlite_int uid then Inr None else Inl OverflowError)"

text \<open>
  The key SQLite gives an inserted row whose integer primary key is left out: 1 for an
  empty table, one more than the largest key of the table while that is below the
  largest 64-bit integer. When the largest key is in use the engine draws positive
  keys at random and takes the first one that no row has; when it finds none in its
  attempts the INSERT fails (SQLITE_FULL). \<open>draws\<close> are the keys the random generator
  proposes, in order.
\<close>

definition next_rowid :: "int list \<Rightarrow> User list \<Rightarrow> error + int" where
  "next_rowid draws db =
     (case db of
        [] \<Rightarrow> Inr 1
      | u # us \<Rightarrow>
          (let largest = fold max (map user_id us) (user_id u)
           in if largest < 2 ^ 63 - 1 then Inr (largest + 1)
              else (case find (\<lambda>k. 0 < k \<and> sqlite_int k \<and> k \<notin> set (map user_id db)) draws of
                      Some k \<Rightarrow> Inr k
                    | None \<Rightarrow> Inl OperationalError)))"

text \<open>
  \<open>db.add(db_user); db.commit()\<close> on a new object: the INSERT. The driver binds the
  age, and raises \<open>OverflowError\<close> for one outside the 64-bit range; nothing is
  inserted then. The engine assigns the key and \<open>created_at\<close>
  (\<open>server_default=func.now()\<close>); \<open>updated_at\<close> has no default and stays NULL.
\<close>

definition insert_row :: "int list \<Rightarrow> datetime \<Rightarrow> string \<Rightarrow> string \<Rightarrow> int \<Rightarrow> string \<Rightarrow> User list \<Rightarrow> error + int \<times> User list" where
  "insert_row draws now n e a s db =
     (if \<not> sqlite_int a then Inl OverflowError
      else
        (case next_rowid draws db of
           Inl err \<Rightarrow> Inl err
         | Inr k \<Rightarrow>
             Inr (k, db @ [\<lparr>user_id = k, name = n, email = e, age = a, sex = s,
                            created_at = Some now, updated_at = None\<rparr>])))"

text \<open>
  \<open>db.add(db_user); db.commit()\<close> on a loaded object: UPDATE users SET ... WHERE id = ?,
  with the attribute values of the object.
\<close>

definition update_row :: "User \<Rightarrow> User list \<Rightarrow> User list" where
  "update_row db_user db = map (\<lambda>r. if user_id r = user_id db_user then db_user else r) db"

text \<open>\<open>db.delete(db_user); db.commit()\<close>: DELETE FROM users WHERE id = ?.\<close>

definition delete_row :: "User \<Rightarrow> User list \<Rightarrow> User list" where
  "delete_row db_user db = filter (\<lambda>r. user_id r \<noteq> user_id db_user) db"

text \<open>\<open>db.refresh(db_user)\<close>: the row is read again by its primary key.\<close>

definition refresh :: "int \<Rightarrow> User list \<Rightarrow> error + User" where
  "refresh k db =
     (case find (\<lambda>r. user_id r = k) db of
        None \<Rightarrow> Inl InvalidRequestError
      | Some r \<Rightarrow> Inr r)"

subsection \<open>Two Python operators the update handler uses\<close>

text \<open>
  \<open>x is not y\<close> compares identities. The handler applies it to the value of an
  \<open>Optional[int]\<close> field and the class \<open>int\<close>: an integer object and the class object.
\<close>

datatype py_object = Int_object int | Int_class

definition is_not :: "py_object \<Rightarrow> py_object \<Rightarrow> bool" where
  "is_not x y = (x \<noteq> y)"

text \<open>The truth value of a \<open>str\<close> in a condition: false for the empty string only.\<close>

definition truthy :: "string \<Rightarrow> bool" where
  "truthy s = (s \<noteq> [])"

section \<open>The route handlers\<close>

text \<open>
  create_user, lines 80-96. \<open>draws\<close> is passed on to the storage engine, \<open>now\<close> is the
  time of the INSERT.
\<close>

definition create_user :: "int list \<Rightarrow> datetime \<Rightarrow> UserCreate \<Rightarrow> User list \<Rightarrow> (error + UserRead) \<times> User list" where
  "create_user draws now user db =
     (case find (\<lambda>r. email r = create_email user) db of
        Some db_user \<Rightarrow> (Inl (HTTPException 400 ''Email already in use''), db)
      | None \<Rightarrow>
          if create_sex user \<noteq> ''Female'' \<and> create_sex user \<noteq> ''Male''
          then (Inl (HTTPException 422 ''Please choose Female or Male for sex''), db)
          else if CHR ''@'' \<notin> set (create_email user)
          then (Inl (HTTPException 422 ''Please enter a valid email address''), db)
          else
            (case insert_row draws now (create_name user) (create_email user) (create_age user)
                    (create_sex user) db of
               Inl e \<Rightarrow> (Inl e, db)
             | Inr (k, db') \<Rightarrow>
                 (case refresh k db' of
                    Inl e \<Rightarrow> (Inl e, db')
                  | Inr db_user \<Rightarrow> (Inr (from_orm db_user), db'))))"

text \<open>read_user, lines 99-104.\<close>

definition read_user :: "int \<Rightarrow> User list \<Rightarrow> error + UserRead" where
  "read_user uid db =
     (case select_by_id uid db of
        Inl e \<Rightarrow> Inl e
      | Inr None \<Rightarrow> Inl (HTTPException 404 ''User not found'')
      | Inr (Some db_user) \<Rightarrow> Inr (from_orm db_user))"

text \<open>read_user_by_email, lines 107-112.\<close>

definition read_user_by_email :: "string \<Rightarrow> User list \<Rightarrow> error + UserRead" where
  "read_user_by_email e db =
     (case find (\<lambda>r. email r = e) db of
        None \<Rightarrow> Inl (HTTPException 404 ''User not found'')
      | Some db_user \<Rightarrow> Inr (from_orm db_user))"

text \<open>
  update_user, lines 115-150. The four field blocks work on the loaded object
  \<open>db_user\<close>, in the session only: nothing reaches the file before \<open>db.commit()\<close>
  (the session is made with \<open>autoflush=False\<close>, and \<open>get_db\<close> closes it on every exit).
\<close>

text \<open>Lines 123-124.\<close>

definition assign_name :: "UserUpdate \<Rightarrow> User \<Rightarrow> User" where
  "assign_name user_update db_user =
     (case update_name user_update of
        None \<Rightarrow> db_user
      | Some n \<Rightarrow> db_user\<lparr>name := n\<rparr>)"

text \<open>Lines 125-132.\<close>

definition assign_email :: "int \<Rightarrow> UserUpdate \<Rightarrow> User list \<Rightarrow> User \<Rightarrow> error + User" where
  "assign_email uid user_update db db_user =
     (case update_email user_update of
        None \<Rightarrow> Inr db_user
      | Some e \<Rightarrow>
          (case find (\<lambda>r. email r = e) db of
             None \<Rightarrow> Inr (db_user\<lparr>email := e\<rparr>)
           | Some existing_user \<Rightarrow>
               if user_id existing_user \<noteq> uid
               then Inl (HTTPException 400 ''Email already registered'')
               else Inr (db_user\<lparr>email := e\<rparr>)))"

text \<open>Lines 133-138: \<open>if user_update.age is not int\<close>.\<close>

definition assign_age :: "UserUpdate \<Rightarrow> User \<Rightarrow> error + User" where
  "assign_age user_update db_user =
     (case update_age user_update of
        None \<Rightarrow> Inr db_user
      | Some a \<Rightarrow>
          if is_not (Int_object a) Int_class
          then Inl (HTTPException 422 ''Please enter a valid age'')
          else Inr (db_user\<lparr>age := a\<rparr>))"

text \<open>
  Lines 139-144: \<open>if user_update.sex != 'Female' or 'Male'\<close>, which Python reads as
  \<open>(user_update.sex != 'Female') or 'Male'\<close>.
\<close>

definition assign_sex :: "UserUpdate \<Rightarrow> User \<Rightarrow> error + User" where
  "assign_sex user_update db_user =
     (case update_sex user_update of
        None \<Rightarrow> Inr db_user
      | Some s \<Rightarrow>
          if s \<noteq> ''Female'' \<or> truthy ''Male''
          then Inl (HTTPException 422 ''Please enter Female or Male'')
          else Inr (db_user\<lparr>sex := s\<rparr>))"

definition update_user :: "datetime \<Rightarrow> int \<Rightarrow> UserUpdate \<Rightarrow> User list \<Rightarrow> (error + UserRead) \<times> User list" where
  "update_user now uid user_update db =
     (case select_by_id uid db of
        Inl e \<Rightarrow> (Inl e, db)
      | Inr None \<Rightarrow> (Inl (HTTPException 404 ''User not found''), db)
      | Inr (Some db_user) \<Rightarrow>
          (case assign_email uid user_update db (assign_name user_update db_user) of
             Inl e \<Rightarrow> (Inl e, db)
           | Inr u2 \<Rightarrow>
               (case assign_age user_update u2 of
                  Inl e \<Rightarrow> (Inl e, db)
                | Inr u3 \<Rightarrow>
                    (case assign_sex user_update u3 of
                       Inl e \<Rightarrow> (Inl e, db)
                     | Inr u4 \<Rightarrow>
                         (let db' = update_row (u4\<lparr>updated_at := Some now\<rparr>) db
                          in case refresh (user_id u4) db' of
                               Inl e \<Rightarrow> (Inl e, db')
                             | Inr r \<Rightarrow> (Inr (from_orm r), db'))))))"

text \<open>
  delete_user, lines 153-158. \<open>db.delete\<close> is called on whatever the query returned;
  on None it raises before anything is deleted. When the query itself raises,
  \<open>db.delete\<close> is not reached.
\<close>

definition session_delete :: "User option \<Rightarrow> error + User" where
  "session_delete instance_opt =
     (case instance_opt of
        None \<Rightarrow> Inl UnmappedInstanceError
      | Some db_user \<Rightarrow> Inr db_user)"

definition delete_user :: "int \<Rightarrow> User list \<Rightarrow> (error + (string \<times> string) list) \<times> User list" where
  "delete_user uid db =
     (case select_by_id uid db of
        Inl e \<Rightarrow> (Inl e, db)
      | Inr instance_opt \<Rightarrow>
          (case session_delete instance_opt of
             Inl e \<Rightarrow> (Inl e, db)
           | Inr db_user \<Rightarrow>
               (Inr [(''message'', ''User has been deleted'')], delete_row db_user db)))"

section \<open>A sample table\<close>

text \<open>
  Two rows for the concrete scenarios: the user of the specification's scenario, and a
  user whose email was changed by an update to a string without \<open>@\<close> (the update handler
  has no format check).
\<close>

definition ann :: User where
  "ann = \<lparr>user_id = 1, name = ''Ann'', email = ''ann@x.com'', age = 30, sex = ''Female'',
          created_at = Some 100, updated_at = None\<rparr>"

definition bob :: User where
  "bob = \<lparr>user_id = 2, name = ''Bob'', email = ''nodomain'', age = 41, sex = ''Male'',
          created_at = Some 200, updated_at = Some 250\<rparr>"

section \<open>Facts about queries and the storage engine\<close>

lemma find_None_iff_Ball: "(find P xs = None) = (\<forall>x\<in>set xs. \<not> P x)"
  by (auto simp: find_None_iff)

lemma find_Some_holds: "find P xs = Some x \<Longrightarrow> x \<in> set xs \<and> P x"
  by (auto simp: find_Some_iff)

lemma find_first_ex: "\<exists>x\<in>set xs. P x \<Longrightarrow> \<exists>y. find P xs = Some y"
  by (cases "find P xs") (auto simp: find_None_iff)

lemma find_append_new: "\<forall>x\<in>set xs. \<not> P x \<Longrightarrow> P y \<Longrightarrow> find P (xs @ [y]) = Some y"
  by (induction xs) simp_all

lemma distinct_map_eq:
  "distinct (map f xs) \<Longrightarrow> x \<in> set xs \<Longrightarrow> y \<in> set xs \<Longrightarrow> f x = f y \<Longrightarrow> x = y"
  by (auto simp: distinct_map dest: inj_onD)

lemma fold_max_ge: "(m::int) \<le> fold max xs m \<and> (\<forall>x\<in>set xs. x \<le> fold max xs m)"
proof (induction xs arbitrary: m)
  case Nil
  show ?case by simp
next
  case (Cons y ys)
  have "max y m \<le> fold max ys (max y m)" and "\<forall>x\<in>set ys. x \<le> fold max ys (max y m)"
    using Cons.IH [of "max y m"] by simp_all
  then show ?case by auto
qed

lemma fold_max_mem: "fold max xs (m::int) \<in> insert m (set xs)"
proof (induction xs arbitrary: m)
  case Nil
  show ?case by simp
next
  case (Cons y ys)
  have ih: "fold max ys (max y m) \<in> insert (max y m) (set ys)" by (rule Cons.IH)
  have "max y m = y \<or> max y m = m" by (auto simp: max_def)
  with ih show ?case by auto
qed

text \<open>
  On a list whose keys all fit, the lookup is the check of the parameter followed by
  the query.
\<close>

lemma select_by_id_bind_first:
  assumes "keys_fit db"
  shows "select_by_id uid db =
           (if sqlite_int uid then Inr (find (\<lambda>r. user_id r = uid) db) else Inl OverflowError)"
proof (cases "find (\<lambda>r. user_id r = uid) db")
  case None
  then show ?thesis by (simp add: select_by_id_def)
next
  case (Some x)
  then have "x \<in> set db" "user_id x = uid"
    using find_Some_holds [of "\<lambda>r. user_id r = uid" db x] by simp_all
  with assms have "sqlite_int uid" by (auto simp: keys_fit_def)
  with Some show ?thesis by (simp add: select_by_id_def)
qed

lemma select_by_id_found:
  "find (\<lambda>r. user_id r = uid) db = Some u \<Longrightarrow> select_by_id uid db = Inr (Some u)"
  by (simp add: select_by_id_def)

lemma select_by_id_missing:
  "find (\<lambda>r. user_id r = uid) db = None \<Longrightarrow>
   select_by_id uid db = (if sqlite_int uid then Inr None else Inl OverflowError)"
  by (simp add: select_by_id_def)

text \<open>The key of an inserted row is the key of no row of the table.\<close>

lemma next_rowid_unused:
  assumes "next_rowid draws db = Inr k"
  shows "\<forall>r\<in>set db. user_id r \<noteq> k"
proof (cases db)
  case Nil
  then show ?thesis by simp
next
  case (Cons u us)
  let ?largest = "fold max (map user_id us) (user_id u)"
  have le: "user_id r \<le> ?largest" if "r \<in> set db" for r
    using that Cons fold_max_ge [of "user_id u" "map user_id us"] by auto
  show ?thesis
  proof (cases "?largest < 2 ^ 63 - 1")
    case True
    with assms Cons have "k = ?largest + 1" by (simp add: next_rowid_def Let_def)
    then show ?thesis using le by fastforce
  next
    case False
    with assms Cons
    have "find (\<lambda>k. 0 < k \<and> sqlite_int k \<and> k \<notin> set (map user_id db)) draws = Some k"
      by (simp add: next_rowid_def Let_def split: option.splits)
    then have "k \<notin> set (map user_id db)"
      using find_Some_holds [of "\<lambda>k. 0 < k \<and> sqlite_int k \<and> k \<notin> set (map user_id db)" draws k]
      by simp
    then show ?thesis by auto
  qed
qed

text \<open>While every key is below the largest 64-bit integer, the engine finds a key.\<close>

lemma next_rowid_below:
  assumes "\<forall>r\<in>set db. user_id r < 2 ^ 63 - 1"
  shows "\<exists>k. next_rowid draws db = Inr k"
proof (cases db)
  case Nil
  then show ?thesis by (simp add: next_rowid_def)
next
  case (Cons u us)
  have "fold max (map user_id us) (user_id u) \<in> user_id ` set db"
    using fold_max_mem [of "map user_id us" "user_id u"] Cons by auto
  then have "fold max (map user_id us) (user_id u) < 2 ^ 63 - 1"
    using assms by auto
  with Cons show ?thesis by (simp add: next_rowid_def Let_def)
qed

lemma refresh_inserted:
  "\<forall>r\<in>set db. user_id r \<noteq> k \<Longrightarrow> user_id row = k \<Longrightarrow> refresh k (db @ [row]) = Inr row"
proof -
  assume "\<forall>r\<in>set db. user_id r \<noteq> k" and "user_id row = k"
  then have "find (\<lambda>r. user_id r = k) (db @ [row]) = Some row"
    by (intro find_append_new) simp_all
  then show ?thesis by (simp add: refresh_def)
qed

lemma find_update_row:
  "find (\<lambda>r. user_id r = uid) db = Some u \<Longrightarrow> user_id u' = uid \<Longrightarrow>
   find (\<lambda>r. user_id r = uid) (update_row u' db) = Some u'"
  by (induction db) (auto simp: update_row_def split: if_splits)

lemma refresh_update_row:
  "find (\<lambda>r. user_id r = uid) db = Some u \<Longrightarrow> user_id u' = uid \<Longrightarrow>
   refresh uid (update_row u' db) = Inr u'"
  using find_update_row [of uid db u u'] by (simp add: refresh_def)

lemma update_row_ids: "map user_id (update_row u' db) = map user_id db"
  by (induction db) (simp_all add: update_row_def)

lemma update_row_absent: "\<forall>r\<in>set db. user_id r \<noteq> user_id u' \<Longrightarrow> update_row u' db = db"
  by (induction db) (simp_all add: update_row_def)

lemma update_row_set: "set (update_row u' db) \<subseteq> insert u' (set db)"
  by (auto simp: update_row_def)

text \<open>
  An UPDATE keeps the emails unique when the new email of the row is used by no row
  with another key.
\<close>

lemma update_row_emails:
  "distinct (map user_id db) \<Longrightarrow> distinct (map email db) \<Longrightarrow>
   \<forall>r\<in>set db. email r = email u' \<longrightarrow> user_id r = user_id u' \<Longrightarrow>
   distinct (map email (update_row u' db))"
proof (induction db)
  case Nil
  show ?case by (simp add: update_row_def)
next
  case (Cons r rs)
  have tail: "distinct (map email (update_row u' rs))"
    using Cons by simp
  show ?case
  proof (cases "user_id r = user_id u'")
    case True
    have "user_id r \<notin> user_id ` set rs" using Cons.prems(1) by simp
    with True have others: "\<forall>x\<in>set rs. user_id x \<noteq> user_id u'" by (metis imageI)
    then have same: "update_row u' rs = rs" by (rule update_row_absent)
    have "email u' \<notin> email ` set rs"
    proof
      assume "email u' \<in> email ` set rs"
      then obtain x where "x \<in> set rs" "email x = email u'" by force
      with Cons.prems(3) others show False by simp
    qed
    moreover have "update_row u' (r # rs) = u' # update_row u' rs"
      using True by (simp add: update_row_def)
    moreover have "distinct (map email rs)" using Cons.prems(2) by simp
    ultimately show ?thesis using same by simp
  next
    case False
    then have ne: "email r \<noteq> email u'" using Cons.prems(3) by auto
    have "email r \<notin> email ` set rs" using Cons.prems(2) by simp
    with ne have "email r \<notin> email ` set (update_row u' rs)"
      using update_row_set [of u' rs] by auto
    moreover have "update_row u' (r # rs) = r # update_row u' rs"
      using False by (simp add: update_row_def)
    ultimately show ?thesis using tail by simp
  qed
qed

section \<open>Facts about the handlers\<close>

text \<open>
  The result of create_user, branch by branch: the row read back after the INSERT is
  the inserted one.
\<close>

lemma create_user_result:
  "create_user draws now user db =
     (if \<exists>r\<in>set db. email r = create_email user
      then (Inl (HTTPException 400 ''Email already in use''), db)
      else if create_sex user \<noteq> ''Female'' \<and> create_sex user \<noteq> ''Male''
      then (Inl (HTTPException 422 ''Please choose Female or Male for sex''), db)
      else if CHR ''@'' \<notin> set (create_email user)
      then (Inl (HTTPException 422 ''Please enter a valid email address''), db)
      else if \<not> sqlite_int (create_age user)
      then (Inl OverflowError, db)
      else
        (case next_rowid draws db of
           Inl e \<Rightarrow> (Inl e, db)
         | Inr k \<Rightarrow>
             (let row = \<lparr>user_id = k, name = create_name user, email = create_email user,
                         age = create_age user, sex = create_sex user,
                         created_at = Some now, updated_at = None\<rparr>
              in (Inr (from_orm row), db @ [row]))))"
proof (cases "find (\<lambda>r. email r = create_email user) db")
  case (Some x)
  then have "\<exists>r\<in>set db. email r = create_email user"
    using find_Some_holds [of "\<lambda>r. email r = create_email user" db x] by auto
  with Some show ?thesis by (simp add: create_user_def)
next
  case None
  have unused: "\<not> (\<exists>r\<in>set db. email r = create_email user)"
    using None find_None_iff_Ball [of "\<lambda>r. email r = create_email user" db] by simp
  show ?thesis
  proof (cases "next_rowid draws db")
    case (Inl e)
    with None unused show ?thesis by (simp add: create_user_def insert_row_def)
  next
    case (Inr k)
    have "refresh k (db @ [row]) = Inr row" if "user_id row = k" for row
      using refresh_inserted [OF next_rowid_unused [OF Inr] that] .
    with None unused Inr show ?thesis
      by (simp add: create_user_def insert_row_def Let_def)
  qed
qed

lemma create_user_failure_unchanged:
  "fst (create_user draws now user db) = Inl e \<Longrightarrow> snd (create_user draws now user db) = db"
  by (simp add: create_user_result Let_def split: if_splits sum.splits)

lemma assign_age_result:
  "assign_age user_update db_user =
     (case update_age user_update of
        None \<Rightarrow> Inr db_user
      | Some a \<Rightarrow> Inl (HTTPException 422 ''Please enter a valid age''))"
  by (simp add: assign_age_def is_not_def split: option.splits)

lemma assign_sex_result:
  "assign_sex user_update db_user =
     (case update_sex user_update of
        None \<Rightarrow> Inr db_user
      | Some s \<Rightarrow> Inl (HTTPException 422 ''Please enter Female or Male''))"
  by (simp add: assign_sex_def truthy_def split: option.splits)

lemma assign_email_result:
  "assign_email uid user_update db db_user = Inl (HTTPException 400 ''Email already registered'')
   \<or> assign_email uid user_update db db_user =
        Inr (case update_email user_update of None \<Rightarrow> db_user | Some e \<Rightarrow> db_user\<lparr>email := e\<rparr>)"
  by (simp add: assign_email_def split: option.splits)

lemma assign_email_id:
  "assign_email uid user_update db db_user = Inr u2 \<Longrightarrow> user_id u2 = user_id db_user"
  by (auto simp: assign_email_def split: option.splits if_splits)

lemma assign_name_id: "user_id (assign_name user_update db_user) = user_id db_user"
  by (simp add: assign_name_def split: option.splits)

text \<open>update_user once the row is found, the email block passes and age and sex are absent.\<close>

lemma update_user_commit:
  assumes "find (\<lambda>r. user_id r = uid) db = Some u"
      and "assign_email uid user_update db (assign_name user_update u) = Inr u2"
      and "update_age user_update = None" and "update_sex user_update = None"
  shows "update_user now uid user_update db =
           (Inr (from_orm (u2\<lparr>updated_at := Some now\<rparr>)), update_row (u2\<lparr>updated_at := Some now\<rparr>) db)"
proof -
  have uid: "user_id u = uid"
    using assms(1) find_Some_holds [of "\<lambda>r. user_id r = uid" db u] by simp
  have id2: "user_id u2 = uid"
    using assign_email_id [OF assms(2)] assign_name_id [of user_update u] uid by simp
  have "refresh uid (update_row (u2\<lparr>updated_at := Some now\<rparr>) db) = Inr (u2\<lparr>updated_at := Some now\<rparr>)"
    using refresh_update_row [OF assms(1), of "u2\<lparr>updated_at := Some now\<rparr>"] id2 by simp
  then show ?thesis
    using assms id2
    by (simp add: update_user_def select_by_id_def assign_age_result assign_sex_result Let_def)
qed

text \<open>update_user once the row is found and age or sex is present.\<close>

lemma update_user_failure:
  assumes "find (\<lambda>r. user_id r = uid) db = Some u"
      and "update_age user_update \<noteq> None \<or> update_sex user_update \<noteq> None"
  shows "update_user now uid user_update db = (Inl (HTTPException 400 ''Email already registered''), db)
       \<or> update_user now uid user_update db =
            (Inl (case update_age user_update of
                    Some a \<Rightarrow> HTTPException 422 ''Please enter a valid age''
                  | None \<Rightarrow> HTTPException 422 ''Please enter Female or Male''), db)"
  using assms assign_email_result [of uid user_update db "assign_name user_update u"]
  by (auto simp: update_user_def select_by_id_def assign_age_result assign_sex_result
      split: option.splits)

lemma update_user_failure_unchanged:
  assumes "fst (update_user now uid user_update db) = Inl e"
  shows "snd (update_user now uid user_update db) = db"
proof (cases "find (\<lambda>r. user_id r = uid) db")
  case None
  then show ?thesis by (simp add: update_user_def select_by_id_def)
next
  case (Some x)
  show ?thesis
  proof (cases "update_age user_update \<noteq> None \<or> update_sex user_update \<noteq> None")
    case True
    have "update_user now uid user_update db = (Inl (HTTPException 400 ''Email already registered''), db)
       \<or> update_user now uid user_update db =
            (Inl (case update_age user_update of
                    Some a \<Rightarrow> HTTPException 422 ''Please enter a valid age''
                  | None \<Rightarrow> HTTPException 422 ''Please enter Female or Male''), db)"
      using update_user_failure [OF Some True] .
    then show ?thesis
    proof
      assume "update_user now uid user_update db = (Inl (HTTPException 400 ''Email already registered''), db)"
      then show ?thesis by simp
    next
      assume "update_user now uid user_update db =
            (Inl (case update_age user_update of
                    Some a \<Rightarrow> HTTPException 422 ''Please enter a valid age''
                  | None \<Rightarrow> HTTPException 422 ''Please enter Female or Male''), db)"
      then show ?thesis by simp
    qed
  next
    case False
    show ?thesis
    proof (cases "assign_email uid user_update db (assign_name user_update x)")
      case (Inl e')
      with Some show ?thesis by (simp add: update_user_def select_by_id_def)
    next
      case (Inr u2)
      have "update_user now uid user_update db =
           (Inr (from_orm (u2\<lparr>updated_at := Some now\<rparr>)), update_row (u2\<lparr>updated_at := Some now\<rparr>) db)"
        using update_user_commit [OF Some Inr, of now] False by simp
      with assms show ?thesis by simp
    qed
  qed
qed

section \<open>The handlers keep the constraints of the table\<close>

text \<open>
  The pre-checks of the handlers are enough for the constraints the table declares: a
  table that satisfies them still does after any request, so the storage engine never
  has to reject a commit.
\<close>

lemma assign_email_unused:
  assumes "distinct (map email db)" and "u \<in> set db" and "user_id u = uid"
      and "email db_user = email u"
      and "assign_email uid user_update db db_user = Inr u2"
  shows "\<forall>r\<in>set db. email r = email u2 \<longrightarrow> user_id r = uid"
proof (cases "update_email user_update")
  case None
  then have "email u2 = email u" using assms(4,5) by (auto simp: assign_email_def)
  moreover have "r = u" if "r \<in> set db" and "email r = email u" for r
    using distinct_map_eq [OF assms(1) that(1) assms(2) that(2)] .
  ultimately show ?thesis using assms(3) by auto
next
  case (Some e)
  note present = Some
  show ?thesis
  proof (cases "find (\<lambda>r. email r = e) db")
    case None
    then have "\<forall>r\<in>set db. email r \<noteq> e" by (simp add: find_None_iff_Ball)
    moreover have "email u2 = e" using present None assms(5) by (auto simp: assign_email_def)
    ultimately show ?thesis by simp
  next
    case (Some x)
    then have x: "x \<in> set db" "email x = e"
      using find_Some_holds [of "\<lambda>r. email r = e" db x] by simp_all
    have x2: "user_id x = uid \<and> email u2 = e"
      using present Some assms(5) by (auto simp: assign_email_def split: if_splits)
    have "r = x" if "r \<in> set db" and "email r = e" for r
      using distinct_map_eq [OF assms(1) that(1) x(1)] that(2) x(2) by simp
    with x2 show ?thesis by auto
  qed
qed

lemma table_constraints_empty: "table_constraints []"
  by (simp add: table_constraints_def)

lemma create_user_keeps_constraints:
  assumes "table_constraints db"
  shows "table_constraints (snd (create_user draws now user db))"
proof (cases "fst (create_user draws now user db)")
  case (Inl e)
  then show ?thesis using create_user_failure_unchanged [of draws now user db e] assms by simp
next
  case (Inr v)
  then obtain k where k: "next_rowid draws db = Inr k"
    by (cases "next_rowid draws db") (auto simp: create_user_result split: if_splits)
  have "user_id r \<noteq> k" if "r \<in> set db" for r
    using that next_rowid_unused [OF k] by simp
  then have "k \<notin> user_id ` set db" by force
  then show ?thesis
    using assms Inr k
    by (auto simp: create_user_result Let_def table_constraints_def split: if_splits)
qed

lemma update_user_keeps_constraints:
  assumes "table_constraints db"
  shows "table_constraints (snd (update_user now uid user_update db))"
proof (cases "fst (update_user now uid user_update db)")
  case (Inl e)
  then show ?thesis using update_user_failure_unchanged [of now uid user_update db e] assms by simp
next
  case (Inr v)
  show ?thesis
  proof (cases "find (\<lambda>r. user_id r = uid) db")
    case None
    then show ?thesis using assms by (simp add: update_user_def select_by_id_def)
  next
    case (Some u)
    then have u: "u \<in> set db" "user_id u = uid"
      using find_Some_holds [of "\<lambda>r. user_id r = uid" db u] by simp_all
    have "\<not> (update_age user_update \<noteq> None \<or> update_sex user_update \<noteq> None)"
    proof
      assume "update_age user_update \<noteq> None \<or> update_sex user_update \<noteq> None"
      then have "\<exists>e. fst (update_user now uid user_update db) = Inl e"
        using update_user_failure [OF Some, of user_update now] by force
      with Inr show False by simp
    qed
    then have absent: "update_age user_update = None" "update_sex user_update = None"
      by simp_all
    show ?thesis
    proof (cases "assign_email uid user_update db (assign_name user_update u)")
      case (Inl e)
      then show ?thesis using Some assms by (simp add: update_user_def select_by_id_def)
    next
      case (Inr u2)
      let ?row = "u2\<lparr>updated_at := Some now\<rparr>"
      have res: "snd (update_user now uid user_update db) = update_row ?row db"
        using update_user_commit [OF Some Inr absent, of now] by simp
      have id2: "user_id ?row = uid"
        using assign_email_id [OF Inr] assign_name_id [of user_update u] u(2) by simp
      have emails: "distinct (map email db)" and ids: "distinct (map user_id db)"
        using assms by (simp_all add: table_constraints_def)
      have "email (assign_name user_update u) = email u"
        by (simp add: assign_name_def split: option.splits)
      then have "\<forall>r\<in>set db. email r = email u2 \<longrightarrow> user_id r = uid"
        using assign_email_unused [OF emails u(1) u(2) _ Inr] by simp
      then have "\<forall>r\<in>set db. email r = email ?row \<longrightarrow> user_id r = user_id ?row"
        using id2 by simp
      then have "distinct (map email (update_row ?row db))"
        using update_row_emails [OF ids emails] by simp
      moreover have "distinct (map user_id (update_row ?row db))"
        using ids update_row_ids [of ?row db] by simp
      ultimately show ?thesis using res by (simp add: table_constraints_def)
    qed
  qed
qed

lemma delete_user_keeps_constraints:
  assumes "table_constraints db"
  shows "table_constraints (snd (delete_user uid db))"
  using assms
  by (auto simp: delete_user_def select_by_id_def session_delete_def delete_row_def table_constraints_def
      distinct_map_filter split: option.splits)

section \<open>The handlers keep the keys within the range of the file\<close>

lemma next_rowid_fits:
  assumes "keys_fit db" and "next_rowid draws db = Inr k"
  shows "sqlite_int k"
proof (cases db)
  case Nil
  with assms(2) show ?thesis by (simp add: next_rowid_def sqlite_int_def)
next
  case (Cons u us)
  let ?largest = "fold max (map user_id us) (user_id u)"
  have "?largest \<in> user_id ` set db"
    using fold_max_mem [of "map user_id us" "user_id u"] Cons by auto
  then have fits: "sqlite_int ?largest" using assms(1) by (auto simp: keys_fit_def)
  show ?thesis
  proof (cases "?largest < 2 ^ 63 - 1")
    case True
    with assms(2) Cons have "k = ?largest + 1" by (simp add: next_rowid_def Let_def)
    with True fits show ?thesis by (simp add: sqlite_int_def)
  next
    case False
    with assms(2) Cons
    have "find (\<lambda>k. 0 < k \<and> sqlite_int k \<and> k \<notin> set (map user_id db)) draws = Some k"
      by (simp add: next_rowid_def Let_def split: option.splits)
    then show ?thesis
      using find_Some_holds [of "\<lambda>k. 0 < k \<and> sqlite_int k \<and> k \<notin> set (map user_id db)" draws k]
      by simp
  qed
qed

lemma keys_fit_empty: "keys_fit []"
  by (simp add: keys_fit_def)

lemma create_user_keeps_keys:
  assumes "keys_fit db"
  shows "keys_fit (snd (create_user draws now user db))"
proof (cases "fst (create_user draws now user db)")
  case (Inl e)
  then show ?thesis using create_user_failure_unchanged [of draws now user db e] assms by simp
next
  case (Inr v)
  then obtain k where k: "next_rowid draws db = Inr k"
    by (cases "next_rowid draws db") (auto simp: create_user_result split: if_splits)
  have "sqlite_int k" using next_rowid_fits [OF assms k] .
  then show ?thesis
    using assms Inr k
    by (auto simp: create_user_result Let_def keys_fit_def split: if_splits)
qed

lemma update_row_keeps_keys: "keys_fit db \<Longrightarrow> keys_fit (update_row u' db)"
proof -
  assume "keys_fit db"
  then have "\<forall>k\<in>set (map user_id db). sqlite_int k" by (simp add: keys_fit_def)
  then have "\<forall>k\<in>set (map user_id (update_row u' db)). sqlite_int k"
    by (simp only: update_row_ids)
  then show ?thesis by (simp add: keys_fit_def)
qed

lemma update_user_keeps_keys:
  assumes "keys_fit db"
  shows "keys_fit (snd (update_user now uid user_update db))"
proof (cases "fst (update_user now uid user_update db)")
  case (Inl e)
  then show ?thesis using update_user_failure_unchanged [of now uid user_update db e] assms by simp
next
  case (Inr v)
  have "snd (update_user now uid user_update db) = db
      \<or> (\<exists>u'. snd (update_user now uid user_update db) = update_row u' db)"
    by (auto simp: update_user_def select_by_id_def Let_def split: option.splits sum.splits)
  then show ?thesis using assms update_row_keeps_keys by auto
qed

lemma delete_user_keeps_keys:
  assumes "keys_fit db"
  shows "keys_fit (snd (delete_user uid db))"
  using assms
  by (auto simp: delete_user_def select_by_id_def session_delete_def delete_row_def keys_fit_def
      split: option.splits)

section \<open>The claims of the specification\<close>

subsection \<open>Update: the sex block\<close>

text \<open>
  Claim C1 says that in update_user, with an existing id and \<open>sex\<close> present, the sex
  check never rejects and the value is written whatever it is. On the code the
  condition \<open>(sex != 'Female') or 'Male'\<close> is true for every string, so the reject
  branch is the one taken: at \<open>sex = "Other"\<close> the handler raises 422 and the stored
  row keeps its sex.
\<close>

theorem update_user_sex_counterexample:
  "find (\<lambda>r. user_id r = 1) [ann, bob] = Some ann
   \<and> update_user 300 1
        \<lparr>update_name = None, update_email = None, update_age = None, update_sex = Some ''Other''\<rparr>
        [ann, bob]
       = (Inl (HTTPException 422 ''Please enter Female or Male''), [ann, bob])
   \<and> Validation (HTTPException 422 ''Please enter Female or Male'')
   \<and> read_user 1 [ann, bob] = Inr (from_orm ann) \<and> read_sex (from_orm ann) = ''Female''"
  by (simp add: update_user_def select_by_id_def assign_name_def assign_email_def assign_age_def
      assign_sex_def truthy_def Validation_def read_user_def from_orm_def ann_def bob_def)

text \<open>
  Claim C1, amended: in update_user, for every existing id and every update whose
  \<open>sex\<close> is present and is neither \<open>"Female"\<close> nor \<open>"Male"\<close>, the handler fails
  with a Validation failure, or with the Conflict of the email block when that one
  rejects first, and the table is left as it was; when email and age are absent the
  failure is the 422 of the sex block.
\<close>

theorem update_user_invalid_sex_rejected:
  assumes "find (\<lambda>r. user_id r = uid) db = Some u"
      and "update_sex user_update = Some s"
      and "s \<noteq> ''Female''" and "s \<noteq> ''Male''"
  shows "(\<exists>e. update_user now uid user_update db = (Inl e, db) \<and> (Validation e \<or> Conflict e))
         \<and> (update_email user_update = None \<and> update_age user_update = None \<longrightarrow>
              update_user now uid user_update db
                = (Inl (HTTPException 422 ''Please enter Female or Male''), db))"
proof -
  have "assign_sex user_update x = Inl (HTTPException 422 ''Please enter Female or Male'')" for x
    using assms(2,3) by (simp add: assign_sex_def)
  then have sex: "assign_sex user_update = (\<lambda>x. Inl (HTTPException 422 ''Please enter Female or Male''))"
    by (rule ext)
  have first: "\<exists>e. update_user now uid user_update db = (Inl e, db) \<and> (Validation e \<or> Conflict e)"
    using assms(1) assign_email_result [of uid user_update db "assign_name user_update u"]
    by (auto simp: update_user_def select_by_id_def sex assign_age_result Validation_def Conflict_def
        split: option.splits)
  have "update_user now uid user_update db = (Inl (HTTPException 422 ''Please enter Female or Male''), db)"
    if "update_email user_update = None" and "update_age user_update = None"
    using that assms(1) by (simp add: update_user_def select_by_id_def assign_email_def assign_age_result sex)
  with first show ?thesis by blast
qed

theorem update_user_invalid_sex_rejected_witness:
  "find (\<lambda>r. user_id r = 2) [ann, bob] = Some bob
   \<and> update_user 300 2
        \<lparr>update_name = Some ''Rob'', update_email = None, update_age = None, update_sex = Some ''male''\<rparr>
        [ann, bob]
       = (Inl (HTTPException 422 ''Please enter Female or Male''), [ann, bob])"
  using update_user_invalid_sex_rejected [of 2 "[ann, bob]" bob
      "\<lparr>update_name = Some ''Rob'', update_email = None, update_age = None, update_sex = Some ''male''\<rparr>"
      "''male''" 300]
  by (simp add: ann_def bob_def)

subsection \<open>Update: the age block\<close>

text \<open>
  Claim C2 says that in update_user, with an existing id and \<open>age\<close> present, the age
  check takes the valid branch and the age is written. On the code \<open>age is not int\<close>
  compares an integer with the class \<open>int\<close> and is always true: whenever \<open>age\<close> is
  present the handler fails and the table is left as it was. The failure is the 422 of
  the age block, unless the email block has raised its Conflict before.
\<close>

theorem update_user_age_rejected:
  assumes "find (\<lambda>r. user_id r = uid) db = Some u"
      and "update_age user_update = Some a"
  shows "(\<exists>e. update_user now uid user_update db = (Inl e, db)
              \<and> (e = HTTPException 422 ''Please enter a valid age'' \<or> Conflict e))
         \<and> (update_email user_update = None \<longrightarrow>
              update_user now uid user_update db
                = (Inl (HTTPException 422 ''Please enter a valid age''), db))"
proof -
  have "update_user now uid user_update db = (Inl (HTTPException 400 ''Email already registered''), db)
       \<or> update_user now uid user_update db = (Inl (HTTPException 422 ''Please enter a valid age''), db)"
    using update_user_failure [OF assms(1), of user_update now] assms(2) by simp
  then have first: "\<exists>e. update_user now uid user_update db = (Inl e, db)
              \<and> (e = HTTPException 422 ''Please enter a valid age'' \<or> Conflict e)"
    by (auto simp: Conflict_def)
  have "update_user now uid user_update db = (Inl (HTTPException 422 ''Please enter a valid age''), db)"
    if "update_email user_update = None"
    using that assms by (simp add: update_user_def select_by_id_def assign_email_def assign_age_result)
  with first show ?thesis by blast
qed

theorem update_user_age_rejected_witness:
  "find (\<lambda>r. user_id r = 1) [ann, bob] = Some ann
   \<and> update_user 300 1
        \<lparr>update_name = None, update_email = None, update_age = Some 31, update_sex = None\<rparr>
        [ann, bob]
       = (Inl (HTTPException 422 ''Please enter a valid age''), [ann, bob])"
  using update_user_age_rejected [of 1 "[ann, bob]" ann
      "\<lparr>update_name = None, update_email = None, update_age = Some 31, update_sex = None\<rparr>" 31 300]
  by (simp add: ann_def bob_def)

subsection \<open>Create\<close>

text \<open>
  Claim C3 says that every create input with an unused email, a sex \<open>"Female"\<close> or
  \<open>"Male"\<close> and an email with \<open>@\<close> is created. \<open>age\<close> is a Python \<open>int\<close> and the
  handler never looks at it: for an age that is no signed 64-bit integer the INSERT
  raises \<open>OverflowError\<close> and the table gets no row.
\<close>

theorem create_user_age_counterexample:
  "find (\<lambda>r. email r = ''eve@y.org'') [ann, bob] = None
   \<and> CHR ''@'' \<in> set ''eve@y.org''
   \<and> create_user [] 300
        \<lparr>create_name = ''Eve'', create_email = ''eve@y.org'', create_age = 9223372036854775808,
         create_sex = ''Female''\<rparr>
        [ann, bob]
       = (Inl OverflowError, [ann, bob])"
  by (simp add: create_user_def insert_row_def sqlite_int_def ann_def bob_def)

text \<open>
  Claim C3, amended: for every create input whose email no row uses, whose sex is
  \<open>"Female"\<close> or \<open>"Male"\<close>, whose email contains \<open>@\<close> and whose age is a signed 64-bit
  integer, on a table whose keys are all below the largest 64-bit integer, create_user
  succeeds, the table grows by exactly one row, the returned view is the view of that
  row, with the name, email, age and sex of the input and a key the engine assigned
  and no other row has, and read_user with that key on the new table returns the
  same view.
\<close>

theorem create_user_succeeds:
  assumes "\<forall>r\<in>set db. email r \<noteq> create_email user"
      and "create_sex user = ''Female'' \<or> create_sex user = ''Male''"
      and "CHR ''@'' \<in> set (create_email user)"
      and "sqlite_int (create_age user)"
      and "\<forall>r\<in>set db. user_id r < 2 ^ 63 - 1"
  shows "\<exists>v row. create_user draws now user db = (Inr v, db @ [row])
           \<and> row = \<lparr>user_id = read_id v, name = create_name user, email = create_email user,
                     age = create_age user, sex = create_sex user,
                     created_at = Some now, updated_at = None\<rparr>
           \<and> next_rowid draws db = Inr (read_id v) \<and> (\<forall>r\<in>set db. user_id r \<noteq> read_id v)
           \<and> read_name v = create_name user \<and> read_email v = create_email user
           \<and> read_age v = create_age user \<and> read_sex v = create_sex user
           \<and> read_created_at v = Some now \<and> read_updated_at v = None
           \<and> read_user (read_id v) (db @ [row]) = Inr v"
proof -
  obtain k where k: "next_rowid draws db = Inr k"
    using next_rowid_below [OF assms(5), of draws] by blast
  let ?row = "\<lparr>user_id = k, name = create_name user, email = create_email user,
                age = create_age user, sex = create_sex user,
                created_at = Some now, updated_at = None\<rparr>"
  have unused: "\<forall>r\<in>set db. user_id r \<noteq> k" using next_rowid_unused [OF k] .
  have created: "create_user draws now user db = (Inr (from_orm ?row), db @ [?row])"
    using assms(1-4) k by (auto simp: create_user_result Let_def)
  have "find (\<lambda>r. user_id r = k) (db @ [?row]) = Some ?row"
    using unused by (intro find_append_new) simp_all
  then have readback: "read_user k (db @ [?row]) = Inr (from_orm ?row)"
    by (simp add: read_user_def select_by_id_def)
  show ?thesis
    using created readback unused k
    by (intro exI [of _ "from_orm ?row"] exI [of _ ?row]) (simp add: from_orm_def)
qed

theorem create_user_succeeds_witness:
  "find (\<lambda>r. email r = ''eve@y.org'') [ann, bob] = None
   \<and> sqlite_int 27
   \<and> create_user [] 300
        \<lparr>create_name = ''Eve'', create_email = ''eve@y.org'', create_age = 27, create_sex = ''Female''\<rparr>
        [ann, bob]
       = (Inr \<lparr>read_id = 3, read_name = ''Eve'', read_email = ''eve@y.org'', read_age = 27,
               read_sex = ''Female'', read_created_at = Some 300, read_updated_at = None\<rparr>,
          [ann, bob, \<lparr>user_id = 3, name = ''Eve'', email = ''eve@y.org'', age = 27, sex = ''Female'',
                       created_at = Some 300, updated_at = None\<rparr>])
   \<and> read_user 3
        [ann, bob, \<lparr>user_id = 3, name = ''Eve'', email = ''eve@y.org'', age = 27, sex = ''Female'',
                     created_at = Some 300, updated_at = None\<rparr>]
       = Inr \<lparr>read_id = 3, read_name = ''Eve'', read_email = ''eve@y.org'', read_age = 27,
              read_sex = ''Female'', read_created_at = Some 300, read_updated_at = None\<rparr>"
  using create_user_succeeds [of "[ann, bob]"
      "\<lparr>create_name = ''Eve'', create_email = ''eve@y.org'', create_age = 27, create_sex = ''Female''\<rparr>"
      "[]" 300]
  by (simp add: ann_def bob_def create_user_def insert_row_def next_rowid_def refresh_def
      from_orm_def sqlite_int_def read_user_def select_by_id_def)

text \<open>
  Claim C4: for every create input whose email is the email of some row, create_user
  fails with the Conflict failure 400 and the table is left as it was, whatever the
  name, the age and the sex are and whatever the email looks like: the query for the
  email comes first.
\<close>

theorem create_user_duplicate_email:
  assumes "\<exists>r\<in>set db. email r = create_email user"
  shows "create_user draws now user db = (Inl (HTTPException 400 ''Email already in use''), db)
         \<and> Conflict (HTTPException 400 ''Email already in use'')"
  using assms by (simp add: create_user_result Let_def Conflict_def)

theorem create_user_duplicate_email_witness:
  "(\<exists>r\<in>set [ann, bob]. email r = ''nodomain'')
   \<and> create_user [] 300
        \<lparr>create_name = ''Eve'', create_email = ''nodomain'', create_age = 5, create_sex = ''Other''\<rparr>
        [ann, bob]
       = (Inl (HTTPException 400 ''Email already in use''), [ann, bob])"
  using create_user_duplicate_email [of "[ann, bob]"
      "\<lparr>create_name = ''Eve'', create_email = ''nodomain'', create_age = 5, create_sex = ''Other''\<rparr>"
      "[]" 300]
  by (simp add: ann_def bob_def)

subsection \<open>Delete\<close>

text \<open>
  Claim C5 says that for every id no row has, delete_user obtains no result from the
  lookup and calls \<open>db.delete\<close> on the missing reference. For an id that is no signed
  64-bit integer the lookup of line 155 itself raises \<open>OverflowError\<close>: it returns
  nothing and \<open>db.delete\<close> is not reached.
\<close>

theorem delete_user_overflow_counterexample:
  "find (\<lambda>r. user_id r = 9223372036854775808) [ann, bob] = None
   \<and> select_by_id 9223372036854775808 [ann, bob] = Inl OverflowError
   \<and> delete_user 9223372036854775808 [ann, bob] = (Inl OverflowError, [ann, bob])
   \<and> delete_user 9223372036854775808 [ann, bob] \<noteq> (Inl UnmappedInstanceError, [ann, bob])"
  by (simp add: delete_user_def select_by_id_def sqlite_int_def ann_def bob_def)

text \<open>
  Claim C5, amended: for every id that no row has, delete_user signals no Not-Found
  failure and deletes nothing. When the id is a signed 64-bit integer the lookup
  obtains no result, \<open>db.delete\<close> is called on it and raises \<open>UnmappedInstanceError\<close>,
  which is no \<open>HTTPException\<close>; when it is not, the lookup raises \<open>OverflowError\<close> and
  \<open>db.delete\<close> is not reached.
\<close>

theorem delete_user_missing_row:
  assumes "\<forall>r\<in>set db. user_id r \<noteq> uid"
  shows "(sqlite_int uid \<longrightarrow>
            select_by_id uid db = Inr None
            \<and> session_delete None = Inl UnmappedInstanceError
            \<and> delete_user uid db = (Inl UnmappedInstanceError, db))
         \<and> (\<not> sqlite_int uid \<longrightarrow>
            select_by_id uid db = Inl OverflowError
            \<and> delete_user uid db = (Inl OverflowError, db))
         \<and> (\<exists>e. delete_user uid db = (Inl e, db) \<and> \<not> NotFound e)"
proof -
  have "find (\<lambda>r. user_id r = uid) db = None"
    using assms by (simp add: find_None_iff)
  then show ?thesis
    by (simp add: delete_user_def select_by_id_def session_delete_def NotFound_def)
qed

theorem delete_user_missing_row_witness:
  "sqlite_int 3
   \<and> delete_user 3 [ann, bob] = (Inl UnmappedInstanceError, [ann, bob])
   \<and> \<not> NotFound UnmappedInstanceError
   \<and> \<not> sqlite_int 9223372036854775808
   \<and> delete_user 9223372036854775808 [ann, bob] = (Inl OverflowError, [ann, bob])
   \<and> \<not> NotFound OverflowError"
  using delete_user_missing_row [of "[ann, bob]" 3]
    delete_user_missing_row [of "[ann, bob]" 9223372036854775808]
  by (simp add: ann_def bob_def sqlite_int_def NotFound_def)

subsection \<open>Update: the email block\<close>

text \<open>
  Claim C6: in update_user with \<open>email\<close> present, on a table that satisfies its
  constraints and for an existing id: if the email is used by a row with another id,
  the handler fails with the Conflict failure 400 and the table is left as it was; if
  the email is the current email of the target row, the handler raises no Conflict,
  and with age and sex absent it commits the row with that email.
\<close>

theorem update_user_email_conflict:
  assumes "table_constraints db"
      and "find (\<lambda>r. user_id r = uid) db = Some u"
      and "update_email user_update = Some e"
  shows "((\<exists>r\<in>set db. email r = e \<and> user_id r \<noteq> uid) \<longrightarrow>
            update_user now uid user_update db
              = (Inl (HTTPException 400 ''Email already registered''), db)
            \<and> Conflict (HTTPException 400 ''Email already registered''))
         \<and> (e = email u \<longrightarrow>
              (\<forall>x. fst (update_user now uid user_update db) = Inl x \<longrightarrow> \<not> Conflict x)
              \<and> (update_age user_update = None \<and> update_sex user_update = None \<longrightarrow>
                   update_user now uid user_update db =
                     (Inr (from_orm ((assign_name user_update u)\<lparr>email := e, updated_at := Some now\<rparr>)),
                      update_row ((assign_name user_update u)\<lparr>email := e, updated_at := Some now\<rparr>) db)))"
proof -
  have emails: "distinct (map email db)" using assms(1) by (simp add: table_constraints_def)
  have u: "u \<in> set db" "user_id u = uid"
    using assms(2) find_Some_holds [of "\<lambda>r. user_id r = uid" db u] by simp_all
  have other: "update_user now uid user_update db = (Inl (HTTPException 400 ''Email already registered''), db)"
    if "\<exists>r\<in>set db. email r = e \<and> user_id r \<noteq> uid"
  proof -
    from that obtain r where r: "r \<in> set db" "email r = e" "user_id r \<noteq> uid" by blast
    then obtain x where x: "find (\<lambda>r. email r = e) db = Some x"
      using find_first_ex [of db "\<lambda>r. email r = e"] by blast
    then have "x \<in> set db" "email x = e"
      using find_Some_holds [of "\<lambda>r. email r = e" db x] by simp_all
    with r emails have "x = r" using distinct_map_eq [of email db x r] by simp
    with x r assms(3) have "assign_email uid user_update db (assign_name user_update u)
        = Inl (HTTPException 400 ''Email already registered'')"
      by (simp add: assign_email_def)
    with assms(2) show ?thesis by (simp add: update_user_def select_by_id_def)
  qed
  have own: "assign_email uid user_update db (assign_name user_update u)
               = Inr ((assign_name user_update u)\<lparr>email := e\<rparr>)" if "e = email u"
  proof -
    have "\<exists>r\<in>set db. email r = e" using u(1) that by auto
    then obtain x where x: "find (\<lambda>r. email r = e) db = Some x"
      using find_first_ex [of db "\<lambda>r. email r = e"] by blast
    then have "x \<in> set db" "email x = e"
      using find_Some_holds [of "\<lambda>r. email r = e" db x] by simp_all
    with u(1) that emails have "x = u" using distinct_map_eq [of email db x u] by simp
    with x u(2) assms(3) show ?thesis by (simp add: assign_email_def)
  qed
  have no_conflict: "\<forall>x. fst (update_user now uid user_update db) = Inl x \<longrightarrow> \<not> Conflict x"
    if "e = email u"
  proof (cases "update_age user_update = None \<and> update_sex user_update = None")
    case True
    then show ?thesis using update_user_commit [OF assms(2) own [OF that], of now] by simp
  next
    case False
    then show ?thesis
      using own [OF that] assms(2)
      by (auto simp: update_user_def select_by_id_def assign_age_result assign_sex_result Conflict_def
          split: option.splits)
  qed
  have proceeds: "update_user now uid user_update db =
      (Inr (from_orm ((assign_name user_update u)\<lparr>email := e, updated_at := Some now\<rparr>)),
       update_row ((assign_name user_update u)\<lparr>email := e, updated_at := Some now\<rparr>) db)"
    if "e = email u" and "update_age user_update = None \<and> update_sex user_update = None"
    using update_user_commit [OF assms(2) own [OF that(1)], of now] that(2) by simp
  from other no_conflict proceeds show ?thesis by (simp add: Conflict_def)
qed

theorem update_user_email_conflict_witness:
  "table_constraints [ann, bob] \<and> find (\<lambda>r. user_id r = 1) [ann, bob] = Some ann
   \<and> update_user 300 1
        \<lparr>update_name = None, update_email = Some ''nodomain'', update_age = None, update_sex = None\<rparr>
        [ann, bob]
       = (Inl (HTTPException 400 ''Email already registered''), [ann, bob])
   \<and> update_user 300 2
        \<lparr>update_name = None, update_email = Some ''nodomain'', update_age = None, update_sex = None\<rparr>
        [ann, bob]
       = (Inr (from_orm (bob\<lparr>updated_at := Some 300\<rparr>)), [ann, bob\<lparr>updated_at := Some 300\<rparr>])"
  using update_user_email_conflict [of "[ann, bob]" 1 ann
      "\<lparr>update_name = None, update_email = Some ''nodomain'', update_age = None, update_sex = None\<rparr>"
      "''nodomain''" 300]
    update_user_email_conflict [of "[ann, bob]" 2 bob
      "\<lparr>update_name = None, update_email = Some ''nodomain'', update_age = None, update_sex = None\<rparr>"
      "''nodomain''" 300]
  by (simp add: ann_def bob_def table_constraints_def assign_name_def update_row_def)

subsection \<open>Update: the name alone\<close>

text \<open>
  Claim C7: for every existing row and every update with only \<open>name\<close> present,
  update_user succeeds; the stored row and the returned view have the new name, the
  email, age and sex (and \<open>created_at\<close>) they had, and \<open>updated_at\<close> set to the current
  time.
\<close>

theorem update_user_name_only:
  assumes "find (\<lambda>r. user_id r = uid) db = Some u"
      and "user_update = \<lparr>update_name = Some n, update_email = None, update_age = None, update_sex = None\<rparr>"
  shows "\<exists>v row. update_user now uid user_update db = (Inr v, update_row row db)
           \<and> row = u\<lparr>name := n, updated_at := Some now\<rparr>
           \<and> v = from_orm row
           \<and> find (\<lambda>r. user_id r = uid) (update_row row db) = Some row
           \<and> read_id v = uid \<and> read_name v = n
           \<and> read_email v = email u \<and> read_age v = age u \<and> read_sex v = sex u
           \<and> read_created_at v = created_at u \<and> read_updated_at v = Some now"
proof -
  let ?row = "u\<lparr>name := n, updated_at := Some now\<rparr>"
  have uid: "user_id u = uid"
    using assms(1) find_Some_holds [of "\<lambda>r. user_id r = uid" db u] by simp
  have "assign_email uid user_update db (assign_name user_update u) = Inr (u\<lparr>name := n\<rparr>)"
    using assms(2) by (simp add: assign_email_def assign_name_def)
  then have upd: "update_user now uid user_update db = (Inr (from_orm ?row), update_row ?row db)"
    using update_user_commit [OF assms(1), of user_update "u\<lparr>name := n\<rparr>" now] assms(2) by simp
  have stored: "find (\<lambda>r. user_id r = uid) (update_row ?row db) = Some ?row"
    using find_update_row [OF assms(1), of ?row] uid by simp
  show ?thesis
    using upd stored uid
    by (intro exI [of _ "from_orm ?row"] exI [of _ ?row]) (simp add: from_orm_def)
qed

theorem update_user_name_only_witness:
  "find (\<lambda>r. user_id r = 1) [ann, bob] = Some ann
   \<and> update_user 300 1
        \<lparr>update_name = Some ''Anne'', update_email = None, update_age = None, update_sex = None\<rparr>
        [ann, bob]
       = (Inr \<lparr>read_id = 1, read_name = ''Anne'', read_email = ''ann@x.com'', read_age = 30,
               read_sex = ''Female'', read_created_at = Some 100, read_updated_at = Some 300\<rparr>,
          [ann\<lparr>name := ''Anne'', updated_at := Some 300\<rparr>, bob])"
  using update_user_name_only [of 1 "[ann, bob]" ann
      "\<lparr>update_name = Some ''Anne'', update_email = None, update_age = None, update_sex = None\<rparr>"
      "''Anne''" 300]
  by (auto simp: ann_def bob_def from_orm_def update_row_def)

subsection \<open>Read\<close>

text \<open>
  Claim C8 says that read_user signals Not-Found exactly when no row has the id. An id
  that is no signed 64-bit integer is the id of no row, and for it the lookup of line
  101 raises \<open>OverflowError\<close>, which is no Not-Found failure.
\<close>

theorem read_user_overflow_counterexample:
  "find (\<lambda>r. user_id r = 9223372036854775808) [ann, bob] = None
   \<and> read_user 9223372036854775808 [ann, bob] = Inl OverflowError
   \<and> \<not> NotFound OverflowError"
  by (simp add: read_user_def select_by_id_def sqlite_int_def NotFound_def ann_def bob_def)

text \<open>
  Claim C8, amended: read_user signals a Not-Found failure (the 404 "User not found")
  exactly when no row has the id and the id is a signed 64-bit integer; for an id
  outside that range it raises \<open>OverflowError\<close>. read_user_by_email signals the
  Not-Found failure exactly when no row has an email equal to the string. Otherwise
  each returns the full view of the first row that matches: its id, name, email, age,
  sex, \<open>created_at\<close> and \<open>updated_at\<close>.
\<close>

theorem read_user_not_found_iff:
  "((\<exists>x. read_user uid db = Inl x \<and> NotFound x) \<longleftrightarrow>
       (\<forall>r\<in>set db. user_id r \<noteq> uid) \<and> sqlite_int uid)
   \<and> ((\<forall>r\<in>set db. user_id r \<noteq> uid) \<longrightarrow>
         read_user uid db =
           (if sqlite_int uid then Inl (HTTPException 404 ''User not found'') else Inl OverflowError))
   \<and> ((\<exists>x. read_user_by_email e db = Inl x \<and> NotFound x) \<longleftrightarrow> (\<forall>r\<in>set db. email r \<noteq> e))
   \<and> ((\<forall>r\<in>set db. email r \<noteq> e) \<longrightarrow>
         read_user_by_email e db = Inl (HTTPException 404 ''User not found''))
   \<and> ((\<exists>r\<in>set db. user_id r = uid) \<longrightarrow>
         (\<exists>r\<in>set db. user_id r = uid \<and> find (\<lambda>r. user_id r = uid) db = Some r
            \<and> read_user uid db =
                Inr \<lparr>read_id = uid, read_name = name r, read_email = email r,
                     read_age = age r, read_sex = sex r,
                     read_created_at = created_at r, read_updated_at = updated_at r\<rparr>))
   \<and> ((\<exists>r\<in>set db. email r = e) \<longrightarrow>
         (\<exists>r\<in>set db. email r = e \<and> find (\<lambda>r. email r = e) db = Some r
            \<and> read_user_by_email e db =
                Inr \<lparr>read_id = user_id r, read_name = name r, read_email = e,
                     read_age = age r, read_sex = sex r,
                     read_created_at = created_at r, read_updated_at = updated_at r\<rparr>))"
proof -
  have id_cases:
    "((\<exists>x. read_user uid db = Inl x \<and> NotFound x) \<longleftrightarrow>
         (\<forall>r\<in>set db. user_id r \<noteq> uid) \<and> sqlite_int uid)
     \<and> ((\<forall>r\<in>set db. user_id r \<noteq> uid) \<longrightarrow>
         read_user uid db =
           (if sqlite_int uid then Inl (HTTPException 404 ''User not found'') else Inl OverflowError))
     \<and> ((\<exists>r\<in>set db. user_id r = uid) \<longrightarrow>
         (\<exists>r\<in>set db. user_id r = uid \<and> find (\<lambda>r. user_id r = uid) db = Some r
            \<and> read_user uid db =
                Inr \<lparr>read_id = uid, read_name = name r, read_email = email r,
                     read_age = age r, read_sex = sex r,
                     read_created_at = created_at r, read_updated_at = updated_at r\<rparr>))"
  proof (cases "find (\<lambda>r. user_id r = uid) db")
    case None
    then have none: "\<forall>r\<in>set db. user_id r \<noteq> uid"
      using find_None_iff_Ball [of "\<lambda>r. user_id r = uid" db] by simp
    have "read_user uid db =
           (if sqlite_int uid then Inl (HTTPException 404 ''User not found'') else Inl OverflowError)"
      using None by (simp add: read_user_def select_by_id_def)
    with none show ?thesis by (auto simp: NotFound_def)
  next
    case (Some x)
    then have x: "x \<in> set db" "user_id x = uid"
      using find_Some_holds [of "\<lambda>r. user_id r = uid" db x] by simp_all
    have "read_user uid db = Inr (from_orm x)"
      using Some by (simp add: read_user_def select_by_id_def)
    with x Some show ?thesis by (auto simp: from_orm_def)
  qed
  have email_cases:
    "((\<exists>x. read_user_by_email e db = Inl x \<and> NotFound x) \<longleftrightarrow> (\<forall>r\<in>set db. email r \<noteq> e))
     \<and> ((\<forall>r\<in>set db. email r \<noteq> e) \<longrightarrow>
         read_user_by_email e db = Inl (HTTPException 404 ''User not found''))
     \<and> ((\<exists>r\<in>set db. email r = e) \<longrightarrow>
         (\<exists>r\<in>set db. email r = e \<and> find (\<lambda>r. email r = e) db = Some r
            \<and> read_user_by_email e db =
                Inr \<lparr>read_id = user_id r, read_name = name r, read_email = e,
                     read_age = age r, read_sex = sex r,
                     read_created_at = created_at r, read_updated_at = updated_at r\<rparr>))"
  proof (cases "find (\<lambda>r. email r = e) db")
    case None
    then have none: "\<forall>r\<in>set db. email r \<noteq> e"
      using find_None_iff_Ball [of "\<lambda>r. email r = e" db] by simp
    have "read_user_by_email e db = Inl (HTTPException 404 ''User not found'')"
      using None by (simp add: read_user_by_email_def)
    with none show ?thesis by (auto simp: NotFound_def)
  next
    case (Some x)
    then have x: "x \<in> set db" "email x = e"
      using find_Some_holds [of "\<lambda>r. email r = e" db x] by simp_all
    have "read_user_by_email e db = Inr (from_orm x)"
      using Some by (simp add: read_user_by_email_def)
    with x Some show ?thesis by (auto simp: from_orm_def)
  qed
  from id_cases email_cases show ?thesis by blast
qed

theorem read_user_not_found_iff_witness:
  "read_user 3 [ann, bob] = Inl (HTTPException 404 ''User not found'')
   \<and> NotFound (HTTPException 404 ''User not found'')
   \<and> read_user_by_email ''Ann@x.com'' [ann, bob] = Inl (HTTPException 404 ''User not found'')
   \<and> read_user 2 [ann, bob]
       = Inr \<lparr>read_id = 2, read_name = ''Bob'', read_email = ''nodomain'', read_age = 41,
              read_sex = ''Male'', read_created_at = Some 200, read_updated_at = Some 250\<rparr>
   \<and> read_user_by_email ''ann@x.com'' [ann, bob]
       = Inr \<lparr>read_id = 1, read_name = ''Ann'', read_email = ''ann@x.com'', read_age = 30,
              read_sex = ''Female'', read_created_at = Some 100, read_updated_at = None\<rparr>"
  using read_user_not_found_iff [of 3 "[ann, bob]" "''Ann@x.com''"]
    read_user_not_found_iff [of 2 "[ann, bob]" "''ann@x.com''"]
  by (simp add: read_user_def select_by_id_def read_user_by_email_def from_orm_def
      sqlite_int_def NotFound_def ann_def bob_def)

subsection \<open>Delete of a row that exists\<close>

text \<open>
  Claim C9: on a table the file can hold (its keys are signed 64-bit integers), for
  every id that some row has, delete_user removes the rows with that id and no other,
  returns the body \<open>{"message": "User has been deleted"}\<close>, and read_user with the
  same id on the table it leaves fails with Not-Found.
\<close>

theorem delete_user_removes_row:
  assumes "keys_fit db"
      and "\<exists>r\<in>set db. user_id r = uid"
  shows "delete_user uid db
           = (Inr [(''message'', ''User has been deleted'')], filter (\<lambda>r. user_id r \<noteq> uid) db)
         \<and> read_user uid (snd (delete_user uid db)) = Inl (HTTPException 404 ''User not found'')
         \<and> NotFound (HTTPException 404 ''User not found'')"
proof -
  obtain x where x: "find (\<lambda>r. user_id r = uid) db = Some x"
    using assms(2) find_first_ex [of db "\<lambda>r. user_id r = uid"] by blast
  then have "x \<in> set db" and "user_id x = uid"
    using find_Some_holds [of "\<lambda>r. user_id r = uid" db x] by simp_all
  then have fits: "sqlite_int uid" using assms(1) by (auto simp: keys_fit_def)
  have "user_id x = uid" by fact
  with x have del: "delete_user uid db
      = (Inr [(''message'', ''User has been deleted'')], filter (\<lambda>r. user_id r \<noteq> uid) db)"
    by (simp add: delete_user_def select_by_id_def session_delete_def delete_row_def)
  have "find (\<lambda>r. user_id r = uid) (filter (\<lambda>r. user_id r \<noteq> uid) db) = None"
    by (simp add: find_None_iff)
  then have "read_user uid (filter (\<lambda>r. user_id r \<noteq> uid) db) = Inl (HTTPException 404 ''User not found'')"
    using fits by (simp add: read_user_def select_by_id_def)
  with del show ?thesis by (simp add: NotFound_def)
qed

theorem delete_user_removes_row_witness:
  "keys_fit [ann, bob]
   \<and> delete_user 1 [ann, bob] = (Inr [(''message'', ''User has been deleted'')], [bob])
   \<and> read_user 1 [bob] = Inl (HTTPException 404 ''User not found'')"
  using delete_user_removes_row [of "[ann, bob]" 1]
  by (simp add: ann_def bob_def read_user_def select_by_id_def keys_fit_def sqlite_int_def)

subsection \<open>Failures of the writing handlers\<close>

text \<open>
  Claim C10: whenever create_user or update_user fails with a Not-Found, Conflict or
  Validation failure, the failure is raised before the commit: the table the request
  leaves is the table it found.
\<close>

theorem write_failure_leaves_table:
  "(fst (create_user draws now user db) = Inl e \<and> (NotFound e \<or> Conflict e \<or> Validation e)
      \<longrightarrow> snd (create_user draws now user db) = db)
   \<and> (fst (update_user now uid user_update db) = Inl e \<and> (NotFound e \<or> Conflict e \<or> Validation e)
      \<longrightarrow> snd (update_user now uid user_update db) = db)"
  using create_user_failure_unchanged [of draws now user db e]
    update_user_failure_unchanged [of now uid user_update db e]
  by blast

theorem write_failure_leaves_table_witness:
  "fst (create_user [] 300
          \<lparr>create_name = ''Eve'', create_email = ''eve'', create_age = 27, create_sex = ''Female''\<rparr>
          [ann, bob])
      = Inl (HTTPException 422 ''Please enter a valid email address'')
   \<and> Validation (HTTPException 422 ''Please enter a valid email address'')
   \<and> snd (create_user [] 300
          \<lparr>create_name = ''Eve'', create_email = ''eve'', create_age = 27, create_sex = ''Female''\<rparr>
          [ann, bob]) = [ann, bob]
   \<and> fst (update_user 300 1
          \<lparr>update_name = Some ''Anne'', update_email = Some ''nodomain'', update_age = None, update_sex = None\<rparr>
          [ann, bob])
      = Inl (HTTPException 400 ''Email already registered'')
   \<and> Conflict (HTTPException 400 ''Email already registered'')
   \<and> snd (update_user 300 1
          \<lparr>update_name = Some ''Anne'', update_email = Some ''nodomain'', update_age = None, update_sex = None\<rparr>
          [ann, bob]) = [ann, bob]"
  using write_failure_leaves_table [of "[]" 300
      "\<lparr>create_name = ''Eve'', create_email = ''eve'', create_age = 27, create_sex = ''Female''\<rparr>"
      "[ann, bob]" "HTTPException 422 ''Please enter a valid email address''"]
    write_failure_leaves_table [of _ 300 _ "[ann, bob]" "HTTPException 400 ''Email already registered''" 1
      "\<lparr>update_name = Some ''Anne'', update_email = Some ''nodomain'', update_age = None, update_sex = None\<rparr>"]
  by (simp add: create_user_def update_user_def select_by_id_def assign_name_def assign_email_def
      Validation_def Conflict_def ann_def bob_def)

end
